theory Spec2Isabelle
  imports Main "HOL-Library.AList"
begin

section \<open>Python values and exceptions\<close>

text \<open>
  Sockets handed to \<open>SSHClient.connect\<close> as \<open>sock\<close>: a \<open>direct-tcpip\<close> channel opened on
  a transport (identified by the number the world gave it), a \<open>ProxyCommand\<close> object
  (identified by the command line it spawns), or any other socket-like object of the caller.
\<close>

datatype sock = Channel nat | ProxyCommand string | OtherSock nat

text \<open>The values that occur in keyword-argument dictionaries.\<close>

datatype pyval = PNone | PBool bool | PInt int | PStr string | PSock sock

type_synonym dict = "(string \<times> pyval) list"

text \<open>
  Exceptions. \<open>ThreadException\<close> (Invoke) carries a list of \<open>ExceptionWrapper\<close>s; a wrapper
  holds the exception value caught in a worker thread, and its \<open>type\<close> attribute is the
  class of that value.
\<close>

datatype exc =
    ValueError string
  | KeyError string
  | AttributeError string
  | RecursionError
  | SSHException string
  | SocketError string
  | UserError string
  | ThreadException "wrapper list"
and wrapper = ExceptionWrapper (wvalue: exc)

text \<open>\<open>wrapper.type is ThreadException\<close>\<close>

fun type_is_ThreadException :: "wrapper \<Rightarrow> bool" where
  "type_is_ThreadException (ExceptionWrapper (ThreadException ws)) = True"
| "type_is_ThreadException (ExceptionWrapper e) = False"

datatype 'a result = Raise exc | Return 'a

section \<open>String helpers of the Python runtime\<close>

text \<open>\<open>s.rsplit(sep, 1)\<close>: split at the last occurrence of \<open>sep\<close>, if there is one.\<close>

definition rsplit1 :: "char \<Rightarrow> string \<Rightarrow> string list" where
  "rsplit1 sep s =
     (if sep \<in> set s
      then [rev (drop 1 (dropWhile (\<lambda>x. x \<noteq> sep) (rev s))),
            rev (takeWhile (\<lambda>x. x \<noteq> sep) (rev s))]
      else [s])"

text \<open>
  \<open>int(s)\<close> on a string, base ten (Python 3): surrounding whitespace is dropped, one sign
  is allowed, and the digits may be grouped by single underscores. Anything else raises
  \<open>ValueError\<close>, here \<open>None\<close>. A character stands for a code point below 256. The
  whitespace \<open>int\<close> skips is tab, line feed, vertical tab, form feed, carriage return
  and space, and of the other code points U+0085 and U+00A0; the separators U+001C to
  U+001F are not skipped.
\<close>

definition is_space :: "char \<Rightarrow> bool" where
  "is_space c = (c \<in> set [CHR 0x09, CHR 0x0A, CHR 0x0B, CHR 0x0C, CHR 0x0D, CHR '' '',
                          CHR 0x85, CHR 0xA0])"

definition strip :: "string \<Rightarrow> string" where
  "strip s = rev (dropWhile is_space (rev (dropWhile is_space s)))"

definition is_digit :: "char \<Rightarrow> bool" where
  "is_digit c = (48 \<le> (of_char c :: nat) \<and> (of_char c :: nat) \<le> 57)"

definition digit_val :: "char \<Rightarrow> int" where
  "digit_val c = int (of_char c :: nat) - 48"

text \<open>Digits with single underscores between them; the flag says whether the previous
  character was a digit (an underscore is allowed only then, and not at the end).\<close>

fun digits_ok :: "bool \<Rightarrow> string \<Rightarrow> bool" where
  "digits_ok prev [] = prev"
| "digits_ok prev (c # cs) =
     (if is_digit c then digits_ok True cs
      else if c = CHR ''_'' \<and> prev then digits_ok False cs
      else False)"

definition digits_value :: "string \<Rightarrow> int" where
  "digits_value s = foldl (\<lambda>acc c. 10 * acc + digit_val c) 0 (filter is_digit s)"

definition py_int :: "string \<Rightarrow> int option" where
  "py_int s =
     (let t = strip s;
          neg = (t \<noteq> [] \<and> hd t = CHR ''-'');
          body = (if t \<noteq> [] \<and> (hd t = CHR ''-'' \<or> hd t = CHR ''+'') then tl t else t)
      in if digits_ok False body
         then Some (if neg then - digits_value body else digits_value body)
         else None)"

section \<open>Host shorthand\<close>

record shorthand =
  sh_user :: "string option"
  sh_host :: "string option"
  sh_port :: "int option"

text \<open>
  \<open>Connection.derive_shorthand\<close>. \<open>user_hostport.pop()\<close> takes the last piece;
  \<open>host_port.pop(0)\<close> the first. An empty user, host or port piece counts as absent.
  \<open>int(port)\<close> raises \<open>ValueError\<close> on a port that is not a number.
\<close>

definition derive_shorthand :: "string \<Rightarrow> shorthand result" where
  "derive_shorthand host_string =
     (let user_hostport = rsplit1 CHR ''@'' host_string;
          hostport = last user_hostport;
          user_hostport' = butlast user_hostport;
          user = (if user_hostport' \<noteq> [] \<and> hd user_hostport' \<noteq> []
                  then Some (hd user_hostport') else None)
      in if count_list hostport CHR '':'' > 1
         then Return \<lparr>sh_user = user, sh_host = Some hostport, sh_port = None\<rparr>
         else
           (let host_port = rsplit1 CHR '':'' hostport;
                host = (if hd host_port \<noteq> [] then Some (hd host_port) else None);
                host_port' = tl host_port;
                port = (if host_port' \<noteq> [] \<and> hd host_port' \<noteq> []
                        then Some (hd host_port') else None)
            in case port of
                 None \<Rightarrow> Return \<lparr>sh_user = user, sh_host = host, sh_port = None\<rparr>
               | Some p \<Rightarrow>
                   (case py_int p of
                      None \<Rightarrow> Raise (ValueError ''invalid literal for int()'')
                    | Some n \<Rightarrow> Return \<lparr>sh_user = user, sh_host = host, sh_port = Some n\<rparr>)))"

section \<open>Sessions\<close>

text \<open>
  The transport handle a session keeps after \<open>client.get_transport()\<close>: the number the
  world gave it and Paramiko's \<open>active\<close> flag.
\<close>

record transport_handle =
  tid :: nat
  active :: bool

text \<open>
  The \<open>gateway\<close> attribute is \<open>None\<close>, some other falsy value (\<open>False\<close>), a command
  string, or another \<open>Connection\<close>. A \<open>Connection\<close> holds the attributes its class
  declares. The gateway session is held by value: a chain of gateways is a finite nesting,
  and what \<open>open\<close> does to the gateway object is returned inside the session that refers
  to it.
\<close>

datatype gateway = GwNone | GwFalse | GwCommand string | GwJump connection
and connection = Connection
  (host: "string option")
  (original_host: "string option")
  (user: string)
  (port: int)
  (ssh_config: "(string \<times> string) list")
  (gateway: gateway)
  (forward_agent: bool)
  (connect_kwargs: dict)
  (transport: "transport_handle option")
  (sftp_handle: "nat option")
  (agent_handler: "nat option")

fun set_gateway :: "gateway \<Rightarrow> connection \<Rightarrow> connection" where
  "set_gateway g (Connection h oh u p sc gw fa kw tr sf ah) = Connection h oh u p sc g fa kw tr sf ah"

fun set_transport :: "transport_handle option \<Rightarrow> connection \<Rightarrow> connection" where
  "set_transport t (Connection h oh u p sc gw fa kw tr sf ah) = Connection h oh u p sc gw fa kw t sf ah"

fun set_sftp :: "nat option \<Rightarrow> connection \<Rightarrow> connection" where
  "set_sftp s (Connection h oh u p sc gw fa kw tr sf ah) = Connection h oh u p sc gw fa kw tr s ah"

fun set_agent_handler :: "nat option \<Rightarrow> connection \<Rightarrow> connection" where
  "set_agent_handler a (Connection h oh u p sc gw fa kw tr sf ah) = Connection h oh u p sc gw fa kw tr sf a"

text \<open>Python truth value of the \<open>gateway\<close> attribute (\<open>if self.gateway:\<close>); an empty
  command string is falsy, a \<open>Connection\<close> is truthy.\<close>

fun truthy :: "gateway \<Rightarrow> bool" where
  "truthy GwNone = False"
| "truthy GwFalse = False"
| "truthy (GwCommand s) = (s \<noteq> [])"
| "truthy (GwJump g) = True"

text \<open>\<open>Connection.is_connected\<close>\<close>

definition is_connected :: "connection \<Rightarrow> bool" where
  "is_connected c = (case transport c of None \<Rightarrow> False | Some t \<Rightarrow> active t)"

section \<open>The world outside the module\<close>

text \<open>
  A tunnel pairs the inbound channel with the outbound socket and has a \<open>finished\<close> event.
\<close>

record tunnel =
  tchannel :: nat
  tsock :: nat
  tfinished :: bool

text \<open>
  Every call into Paramiko, Invoke, the socket library or a worker thread is an event in
  a log, in the order the calls are made.
\<close>

datatype event =
    EvConnect dict
  | EvProxyCommand string
  | EvOpenChannel nat string "string option \<times> int" "string \<times> int"
  | EvClientClose nat
  | EvAgentClose nat
  | EvOpenSession nat
  | EvOpenSftp
  | EvRemoteRun string
  | EvManagerStart "nat option" "string \<times> int" "string \<times> int"
  | EvFinishedSet
  | EvManagerJoin
  | EvRequestPortForward nat string int
  | EvCancelPortForward nat string int
  | EvSockConnect nat "string \<times> int"
  | EvTunnelStart nat nat
  | EvTunnelFinishedSet nat nat
  | EvTunnelJoin nat nat
  | EvChannelClose nat

fun is_cancel :: "event \<Rightarrow> bool" where
  "is_cancel (EvCancelPortForward t a p) = True"
| "is_cancel e = False"

fun is_stop :: "event \<Rightarrow> bool" where
  "is_stop (EvTunnelFinishedSet channel sock) = True"
| "is_stop (EvTunnelJoin channel sock) = True"
| "is_stop e = False"

record world =
  events :: "event list"
  fresh :: nat

text \<open>
  What the module cannot decide: whether a call into a collaborator raises, given all
  that happened before, and what Paramiko's \<open>SSHConfig\<close> makes of a configuration text
  (\<open>parse\<close>, then \<open>lookup(host)['proxycommand']\<close>).
\<close>

record env =
  fails :: "event list \<Rightarrow> event \<Rightarrow> exc option"
  sshconfig_proxycommand :: "string \<Rightarrow> string option \<Rightarrow> string result"
  remote_result :: "event list \<Rightarrow> string \<Rightarrow> string"

definition emit :: "event \<Rightarrow> world \<Rightarrow> world" where
  "emit e w = w\<lparr>events := events w @ [e]\<rparr>"

definition call :: "env \<Rightarrow> event \<Rightarrow> world \<Rightarrow> exc option \<times> world" where
  "call env e w = (fails env (events w) e, emit e w)"

definition new_id :: "world \<Rightarrow> nat \<times> world" where
  "new_id w = (fresh w, w\<lparr>fresh := Suc (fresh w)\<rparr>)"

section \<open>Dictionaries\<close>

text \<open>\<open>d[k] = v\<close> is \<open>AList.update k v d\<close>; \<open>d.update(other)\<close> stores every item of
  \<open>other\<close>, in order.\<close>

definition dict_update :: "dict \<Rightarrow> dict \<Rightarrow> dict" where
  "dict_update d other = fold (\<lambda>(k, v). AList.update k v) other d"

definition hostval :: "string option \<Rightarrow> pyval" where
  "hostval h = (case h of None \<Rightarrow> PNone | Some s \<Rightarrow> PStr s)"

text \<open>\<open>"{0}".format(host)\<close>\<close>

definition format_host :: "string option \<Rightarrow> string" where
  "format_host h = (case h of None \<Rightarrow> ''None'' | Some s \<Rightarrow> s)"

section \<open>Opening and closing\<close>

text \<open>\<open>self.client.connect(**kwargs)\<close>, then \<open>self.transport = self.client.get_transport()\<close>:
  after a connect that did not raise, the client's transport is active.\<close>

definition connect :: "env \<Rightarrow> dict \<Rightarrow> connection \<Rightarrow> world \<Rightarrow> unit result \<times> connection \<times> world" where
  "connect env kwargs c w =
     (case call env (EvConnect kwargs) w of
        (Some e, w1) \<Rightarrow> (Raise e, c, w1)
      | (None, w1) \<Rightarrow>
          (let (t, w2) = new_id w1
           in (Return (), set_transport (Some \<lparr>tid = t, active = True\<rparr>) c, w2)))"

text \<open>The dummy configuration text of \<open>open_gateway\<close>.\<close>

definition dummy :: "string option \<Rightarrow> string \<Rightarrow> string" where
  "dummy h g = ''Host '' @ format_host h @ [CHR 0x0A] @ ''    ProxyCommand '' @ g"

text \<open>
  \<open>Connection.open\<close> and \<open>Connection.open_gateway\<close>. The session is returned as the calls
  left it, also when an exception ends them. A gateway that is neither a string nor a
  session has no \<open>open\<close> method.
\<close>

function (sequential) "open" :: "env \<Rightarrow> connection \<Rightarrow> world \<Rightarrow> unit result \<times> connection \<times> world"
  and open_gateway :: "env \<Rightarrow> connection \<Rightarrow> world \<Rightarrow> sock result \<times> connection \<times> world" where
  "open env c w =
     (if \<not> is_connected c then
        (let kwargs = [(''username'', PStr (user c)), (''hostname'', hostval (host c)),
                       (''port'', PInt (port c))]
         in if truthy (gateway c) then
              (case open_gateway env c w of
                 (Raise e, c1, w1) \<Rightarrow> (Raise e, c1, w1)
               | (Return s, c1, w1) \<Rightarrow>
                   connect env (dict_update (AList.update ''sock'' (PSock s) kwargs)
                                  (connect_kwargs c1)) c1 w1)
            else connect env (dict_update kwargs (connect_kwargs c)) c w)
      else (Return (), c, w))"
| "open_gateway env c w =
     (case gateway c of
        GwCommand g \<Rightarrow>
          (case sshconfig_proxycommand env (dummy (host c) g) (host c) of
             Raise e \<Rightarrow> (Raise e, c, w)
           | Return cmd \<Rightarrow>
               (case call env (EvProxyCommand cmd) w of
                  (Some e, w1) \<Rightarrow> (Raise e, c, w1)
                | (None, w1) \<Rightarrow> (Return (ProxyCommand cmd), c, w1)))
      | GwJump g \<Rightarrow>
          (case open env g w of
             (Raise e, g1, w1) \<Rightarrow> (Raise e, set_gateway (GwJump g1) c, w1)
           | (Return u, g1, w1) \<Rightarrow>
               (case transport g1 of
                  None \<Rightarrow> (Raise (AttributeError ''open_channel''), set_gateway (GwJump g1) c, w1)
                | Some t \<Rightarrow>
                    (case call env (EvOpenChannel (tid t) ''direct-tcpip'' (host c, port c) ('''', 0)) w1 of
                       (Some e, w2) \<Rightarrow> (Raise e, set_gateway (GwJump g1) c, w2)
                     | (None, w2) \<Rightarrow>
                         (let (ch, w3) = new_id w2
                          in (Return (Channel ch), set_gateway (GwJump g1) c, w3)))))
      | _ \<Rightarrow> (Raise (AttributeError ''open''), c, w))"
  by pat_completeness auto

termination
  apply (relation "measure (\<lambda>x. case x of Inl (env, c, w) \<Rightarrow> 2 * size c + 1
                                       | Inr (env, c, w) \<Rightarrow> 2 * size c)")
    apply simp
   apply simp
  subgoal for env c w g by (cases c) simp
  done

text \<open>
  \<open>Connection.close\<close>. \<open>client.close()\<close> closes the client's transport, the object
  \<open>self.transport\<close> refers to, whose \<open>active\<close> flag is false from then on.
\<close>

definition close :: "env \<Rightarrow> connection \<Rightarrow> world \<Rightarrow> unit result \<times> connection \<times> world" where
  "close env c w =
     (if is_connected c then
        (case call env (EvClientClose (case transport c of None \<Rightarrow> 0 | Some t \<Rightarrow> tid t)) w of
           (Some e, w1) \<Rightarrow> (Raise e, c, w1)
         | (None, w1) \<Rightarrow>
             (let c1 = set_transport (map_option (\<lambda>t. t\<lparr>active := False\<rparr>) (transport c)) c
              in if forward_agent c1 \<and> agent_handler c1 \<noteq> None then
                   (case call env (EvAgentClose (the (agent_handler c1))) w1 of
                      (Some e, w2) \<Rightarrow> (Raise e, c1, w2)
                    | (None, w2) \<Rightarrow> (Return (), c1, w2))
                 else (Return (), c1, w1)))
      else (Return (), c, w))"

text \<open>The \<open>opens\<close> decorator: \<open>self.open()\<close>, then the method.\<close>

definition opens ::
  "(env \<Rightarrow> connection \<Rightarrow> world \<Rightarrow> 'a result \<times> connection \<times> world) \<Rightarrow>
   env \<Rightarrow> connection \<Rightarrow> world \<Rightarrow> 'a result \<times> connection \<times> world" where
  "opens method env c w =
     (case open env c w of
        (Raise e, c1, w1) \<Rightarrow> (Raise e, c1, w1)
      | (Return u, c1, w1) \<Rightarrow> method env c1 w1)"

text \<open>\<open>self.transport.m(...)\<close> where \<open>self.transport\<close> may still be \<open>None\<close>.\<close>

definition transport_id :: "connection \<Rightarrow> nat result" where
  "transport_id c = (case transport c of None \<Rightarrow> Raise (AttributeError ''transport'')
                     | Some t \<Rightarrow> Return (tid t))"

text \<open>\<open>Connection.create_session\<close>\<close>

definition create_session :: "env \<Rightarrow> connection \<Rightarrow> world \<Rightarrow> nat result \<times> connection \<times> world" where
  "create_session =
     opens (\<lambda>env c w.
       case transport_id c of
         Raise e \<Rightarrow> (Raise e, c, w)
       | Return t \<Rightarrow>
           (case call env (EvOpenSession t) w of
              (Some e, w1) \<Rightarrow> (Raise e, c, w1)
            | (None, w1) \<Rightarrow>
                (let (channel, w2) = new_id w1
                 in (Return channel,
                     if forward_agent c then set_agent_handler (Some channel) c else c, w2))))"

text \<open>\<open>Connection.run\<close>: the remote runner is a collaborator.\<close>

definition run :: "string \<Rightarrow> env \<Rightarrow> connection \<Rightarrow> world \<Rightarrow> string result \<times> connection \<times> world" where
  "run command =
     opens (\<lambda>env c w.
       case call env (EvRemoteRun command) w of
         (Some e, w1) \<Rightarrow> (Raise e, c, w1)
       | (None, w1) \<Rightarrow> (Return (remote_result env (events w) command), c, w1))"

text \<open>\<open>Connection.sftp\<close>: the first client is memoized.\<close>

definition sftp :: "env \<Rightarrow> connection \<Rightarrow> world \<Rightarrow> nat result \<times> connection \<times> world" where
  "sftp =
     opens (\<lambda>env c w.
       case sftp_handle c of
         None \<Rightarrow>
           (case call env EvOpenSftp w of
              (Some e, w1) \<Rightarrow> (Raise e, c, w1)
            | (None, w1) \<Rightarrow>
                (let (h, w2) = new_id w1 in (Return h, set_sftp (Some h) c, w2)))
       | Some h \<Rightarrow> (Return h, c, w))"

section \<open>Paramiko's placeholder expansion\<close>

text \<open>\<open>s.replace(old, new)\<close> for a non-empty \<open>old\<close>: every occurrence, left to right.\<close>

function str_replace :: "string \<Rightarrow> string \<Rightarrow> string \<Rightarrow> string" where
  "str_replace old new s =
     (if s = [] \<or> old = [] then s
      else if take (length old) s = old then new @ str_replace old new (drop (length old) s)
      else hd s # str_replace old new (tl s))"
  by pat_completeness auto
termination
  by (relation "measure (\<lambda>(old, new, s). length s)") auto

declare str_replace.simps [simp del]

text \<open>
  Modelled from the spec: Paramiko's \<open>SSH_PORT\<close>, the port of a host block that has no
  \<open>Port\<close> directive. Paramiko is an external collaborator and not part of the sources;
  the spec names the \<open>port\<close> directive of the resolver and leaves its default to SSH,
  whose port is 22.
\<close>

definition SSH_PORT :: string where
  "SSH_PORT = ''22''"

text \<open>
  Modelled from the spec: the expansion \<open>SSHConfig.lookup\<close> applies to the
  \<open>proxycommand\<close> value of a host block (the spec: expand the host and port placeholder
  tokens of the command). Paramiko, which is not part of the sources, replaces \<open>~\<close> by
  the local home directory, \<open>%h\<close> by the block's host name, \<open>%p\<close> by the block's port
  and \<open>%r\<close> by the local user, in this order. The block of the dummy text has no
  \<open>Port\<close> directive, so its port is \<open>SSH_PORT\<close>.
\<close>

definition paramiko_expand :: "string \<Rightarrow> string \<Rightarrow> string \<Rightarrow> string \<Rightarrow> string" where
  "paramiko_expand homedir local_user hostname command =
     str_replace ''%r'' local_user
       (str_replace ''%p'' SSH_PORT
          (str_replace ''%h'' hostname
             (str_replace ''~'' homedir command)))"

text \<open>
  Modelled from the spec: \<open>SSHConfig.parse\<close> of a text followed by
  \<open>lookup(host)['proxycommand']\<close>, for the texts \<open>open_gateway\<close> writes: a \<open>Host\<close>
  line for \<open>host\<close> and a \<open>ProxyCommand\<close> line with a command of one line. Paramiko sees
  the text and the host, nothing else of the session.
\<close>

definition paramiko_proxycommand :: "string \<Rightarrow> string \<Rightarrow> string \<Rightarrow> string option \<Rightarrow> string result" where
  "paramiko_proxycommand homedir local_user text h =
     (let pre = dummy h []
      in if take (length pre) text = pre
         then Return (paramiko_expand homedir local_user (format_host h) (drop (length pre) text))
         else Raise (KeyError ''proxycommand''))"

section \<open>Construction\<close>

text \<open>
  The configuration a session reads its defaults from, and the SSH configuration lookup
  for a host.
\<close>

record config =
  cfg_user :: string
  cfg_port :: int
  cfg_gateway :: gateway
  cfg_forward_agent :: bool
  cfg_connect_kwargs :: dict
  base_ssh_config :: "string option \<Rightarrow> (string \<times> string) list"

definition err :: "string \<Rightarrow> string" where
  "err what = ''You supplied the '' @ what @ '' via both shorthand and kwarg! Please pick one.''"

text \<open>
  A value given by shorthand and by keyword argument is an error; else the shorthand
  value, if there is one, is taken.
\<close>

definition merge_shorthand :: "string \<Rightarrow> 'a option \<Rightarrow> 'a option \<Rightarrow> 'a option result" where
  "merge_shorthand what short arg =
     (if short \<noteq> None then
        (if arg \<noteq> None then Raise (ValueError (err what)) else Return short)
      else Return arg)"

text \<open>\<open>user or self.ssh_config.get('user', self.config.user)\<close>\<close>

definition resolve_user :: "config \<Rightarrow> (string \<times> string) list \<Rightarrow> string option \<Rightarrow> string" where
  "resolve_user config sshc user0 =
     (if user0 \<noteq> None \<and> user0 \<noteq> Some []
      then the user0
      else (case map_of sshc ''user'' of None \<Rightarrow> cfg_user config | Some v \<Rightarrow> v))"

text \<open>\<open>port or int(self.ssh_config.get('port', self.config.port))\<close>\<close>

definition resolve_port :: "config \<Rightarrow> (string \<times> string) list \<Rightarrow> int option \<Rightarrow> int result" where
  "resolve_port config sshc port0 =
     (if port0 \<noteq> None \<and> port0 \<noteq> Some 0
      then Return (the port0)
      else (case map_of sshc ''port'' of
              None \<Rightarrow> Return (cfg_port config)
            | Some v \<Rightarrow>
                (case py_int v of
                   None \<Rightarrow> Raise (ValueError ''invalid literal for int()'')
                 | Some n \<Rightarrow> Return n)))"

text \<open>The \<open>forward_agent\<close> argument, or the configuration's value, over which the SSH
  configuration wins; its \<open>forwardagent\<close> value is looked up in \<open>{'yes': True, 'no': False}\<close>.\<close>

definition resolve_forward_agent :: "config \<Rightarrow> (string \<times> string) list \<Rightarrow> bool option \<Rightarrow> bool result" where
  "resolve_forward_agent config sshc fa_arg =
     (case fa_arg of
        Some fa \<Rightarrow> Return fa
      | None \<Rightarrow>
          (case map_of sshc ''forwardagent'' of
             None \<Rightarrow> Return (cfg_forward_agent config)
           | Some v \<Rightarrow>
               if v = ''yes'' then Return True
               else if v = ''no'' then Return False
               else Raise (KeyError v)))"

text \<open>
  \<open>Connection.__init__\<close>. The first argument bounds the nesting of constructor calls (a
  \<open>ProxyJump\<close> directive constructs the gateway session, whose own SSH configuration may
  name a \<open>ProxyJump\<close> again), as the interpreter's recursion limit does; the second is
  what \<open>Config()\<close> returns. The \<open>gateway\<close> argument \<open>GwNone\<close> is Python's \<open>None\<close>.
\<close>

fun Connection_init ::
  "nat \<Rightarrow> config \<Rightarrow> string \<Rightarrow> string option \<Rightarrow> int option \<Rightarrow> config option \<Rightarrow>
   gateway \<Rightarrow> bool option \<Rightarrow> dict option \<Rightarrow> connection result" where
  "Connection_init 0 dflt host_string user_arg port_arg config_arg gateway_arg fa_arg kw_arg =
     Raise RecursionError"
| "Connection_init (Suc depth) dflt host_string user_arg port_arg config_arg gateway_arg fa_arg kw_arg =
     (let config = (case config_arg of None \<Rightarrow> dflt | Some cf \<Rightarrow> cf)
      in case derive_shorthand host_string of
           Raise e \<Rightarrow> Raise e
         | Return shorthand \<Rightarrow>
      (case merge_shorthand ''user'' (sh_user shorthand) user_arg of
         Raise e \<Rightarrow> Raise e
       | Return user0 \<Rightarrow>
      (case merge_shorthand ''port'' (sh_port shorthand) port_arg of
         Raise e \<Rightarrow> Raise e
       | Return port0 \<Rightarrow>
      (let host0 = sh_host shorthand;
           sshc = base_ssh_config config host0;
           host1 = (case map_of sshc ''hostname'' of None \<Rightarrow> host0 | Some hn \<Rightarrow> Some hn);
           user1 = resolve_user config sshc user0
       in case resolve_port config sshc port0 of
            Raise e \<Rightarrow> Raise e
          | Return port1 \<Rightarrow>
      (case (if gateway_arg = GwNone then
               (case map_of sshc ''proxyjump'' of
                  Some pj \<Rightarrow>
                    (case Connection_init depth dflt pj None None None GwNone None None of
                       Raise e \<Rightarrow> Raise e
                     | Return g \<Rightarrow> Return (GwJump g))
                | None \<Rightarrow>
                    (case map_of sshc ''proxycommand'' of
                       Some pc \<Rightarrow> Return (GwCommand pc)
                     | None \<Rightarrow> Return (cfg_gateway config)))
             else Return gateway_arg) of
         Raise e \<Rightarrow> Raise e
       | Return gw \<Rightarrow>
      (case resolve_forward_agent config sshc fa_arg of
         Raise e \<Rightarrow> Raise e
       | Return fa \<Rightarrow>
           Return (Connection host1 host0 user1 port1 sshc gw fa
                     (case kw_arg of None \<Rightarrow> cfg_connect_kwargs config | Some kw \<Rightarrow> kw)
                     None None None)))))))"

section \<open>Local forwarding\<close>

text \<open>\<open>if not port: port = other\<close>: \<open>None\<close> and \<open>0\<close> are falsy.\<close>

definition port_or :: "int option \<Rightarrow> int \<Rightarrow> int" where
  "port_or p other = (case p of None \<Rightarrow> other | Some n \<Rightarrow> if n = 0 then other else n)"

text \<open>
  \<open>Connection.forward_local\<close>, as the \<open>with\<close> statement runs it. Two things are decided
  outside: \<open>block\<close> is how the body of the \<open>with\<close> statement ends (it returns, or raises),
  and \<open>manager_exception\<close> is what \<open>manager.exception()\<close> returns once the manager
  thread is joined. An exception raised in the \<open>finally\<close> clause replaces the one the body
  raised.
\<close>

definition forward_local ::
  "int \<Rightarrow> int option \<Rightarrow> string \<Rightarrow> string \<Rightarrow> unit result \<Rightarrow> wrapper option \<Rightarrow>
   env \<Rightarrow> connection \<Rightarrow> world \<Rightarrow> unit result \<times> connection \<times> world" where
  "forward_local local_port remote_port remote_host local_host block manager_exception =
     opens (\<lambda>env c w.
       let remote_port1 = port_or remote_port local_port
       in case call env (EvManagerStart (map_option tid (transport c))
                           (local_host, local_port) (remote_host, remote_port1)) w of
            (Some e, w1) \<Rightarrow> (Raise e, c, w1)
          | (None, w1) \<Rightarrow>
              (let w2 = emit EvFinishedSet w1;
                   w3 = emit EvManagerJoin w2
               in case manager_exception of
                    Some wrapper \<Rightarrow>
                      if type_is_ThreadException wrapper then (Raise (wvalue wrapper), c, w3)
                      else (Raise (ThreadException [wrapper]), c, w3)
                  | None \<Rightarrow> (block, c, w3)))"

text \<open>
  Modelled from the spec: \<open>TunnelManager\<close> (\<open>fabric/tunnels.py\<close>) is not part of the
  sources. The spec: on stop the manager "inspects the manager's own exception slot and
  every tunnel's exception slot". These are the failures that exist across the manager
  and its tunnels, the manager's own first.
\<close>

definition TunnelManager_failures :: "wrapper option \<Rightarrow> wrapper option list \<Rightarrow> wrapper list" where
  "TunnelManager_failures own tunnel_slots =
     (case own of None \<Rightarrow> [] | Some w \<Rightarrow> [w])
     @ concat (map (\<lambda>slot. case slot of None \<Rightarrow> [] | Some w \<Rightarrow> [w]) tunnel_slots)"

text \<open>
  Modelled from the spec: what \<open>manager.exception()\<close> returns after the join, from the
  failures found. The spec's aggregation policy for \<open>TunnelManager\<close>: "if exactly one
  failure exists across manager + tunnels, it is re-raised as-is; if more than one, they
  are combined into a single aggregate error carrying all causes; if zero, nothing is
  raised". The aggregate is the \<open>ThreadException\<close> that \<open>forward_local\<close> expects of
  the manager; what the manager's thread raises is what its exception slot holds.
\<close>

definition TunnelManager_exception :: "wrapper list \<Rightarrow> wrapper option" where
  "TunnelManager_exception failures =
     (case failures of
        [] \<Rightarrow> None
      | [w] \<Rightarrow> Some w
      | _ \<Rightarrow> Some (ExceptionWrapper (ThreadException failures)))"

section \<open>Remote forwarding\<close>

text \<open>
  The \<open>callback\<close> closure of \<open>forward_remote\<close> over \<open>local_host\<close>, \<open>local_port\<close> and the
  \<open>tunnels\<close> list, called with the inbound channel.
\<close>

definition callback ::
  "string \<Rightarrow> int \<Rightarrow> env \<Rightarrow> nat \<Rightarrow> tunnel list \<Rightarrow> world \<Rightarrow> unit result \<times> tunnel list \<times> world" where
  "callback local_host local_port env channel tunnels w =
     (let (sock, w1) = new_id w
      in case call env (EvSockConnect sock (local_host, local_port)) w1 of
           (Some e, w2) \<Rightarrow> (Raise e, tunnels, w2)
         | (None, w2) \<Rightarrow>
             (case call env (EvTunnelStart channel sock) w2 of
                (Some e, w3) \<Rightarrow> (Raise e, tunnels, w3)
              | (None, w3) \<Rightarrow>
                  (Return (),
                   tunnels @ [\<lparr>tchannel = channel, tsock = sock, tfinished = False\<rparr>], w3)))"

text \<open>
  The transport calls the callback once for each inbound connection of the scope, in its
  own thread: an exception of the callback ends there and does not reach the scope.
\<close>

fun inbound_connections ::
  "string \<Rightarrow> int \<Rightarrow> env \<Rightarrow> nat list \<Rightarrow> tunnel list \<Rightarrow> world \<Rightarrow> tunnel list \<times> world" where
  "inbound_connections local_host local_port env [] tunnels w = (tunnels, w)"
| "inbound_connections local_host local_port env (channel # channels) tunnels w =
     (case callback local_host local_port env channel tunnels w of
        (r, tunnels1, w1) \<Rightarrow> inbound_connections local_host local_port env channels tunnels1 w1)"

text \<open>The calls that stop one tunnel.\<close>

definition stop_events :: "tunnel \<Rightarrow> event list" where
  "stop_events t = [EvTunnelFinishedSet (tchannel t) (tsock t), EvTunnelJoin (tchannel t) (tsock t)]"

text \<open>The loop of the \<open>finally\<close> clause over a list that no longer grows:
  \<open>tunnel.finished.set()\<close>, \<open>tunnel.join()\<close> for each tunnel.\<close>

fun stop_tunnels :: "tunnel list \<Rightarrow> world \<Rightarrow> tunnel list \<times> world" where
  "stop_tunnels [] w = ([], w)"
| "stop_tunnels (t # ts) w =
     (let w1 = emit (EvTunnelFinishedSet (tchannel t) (tsock t)) w;
          w2 = emit (EvTunnelJoin (tchannel t) (tsock t)) w1
      in case stop_tunnels ts w2 of
           (ts1, w3) \<Rightarrow> (t\<lparr>tfinished := True\<rparr> # ts1, w3))"

text \<open>
  The loop of the \<open>finally\<close> clause while the forward is still registered: the transport
  may deliver connections, in its own thread, while the loop runs, and Python's \<open>for\<close>
  over a list sees what is appended during the iteration. \<open>arriving\<close> lists the channels
  delivered before each fetch of the loop, the first list before the first fetch. When it
  is used up, nothing else arrives and the loop runs over the rest of the list. The loop
  ends when its index is at the end of the list; what is left of \<open>arriving\<close> then arrives
  later, between the loop and the cancel call. The result is the \<open>tunnels\<close> list, these
  later arrivals and the world.
\<close>

fun stop_loop ::
  "string \<Rightarrow> int \<Rightarrow> env \<Rightarrow> nat list list \<Rightarrow> nat \<Rightarrow> tunnel list \<Rightarrow> world \<Rightarrow>
   tunnel list \<times> nat list list \<times> world" where
  "stop_loop local_host local_port env [] i tunnels w =
     (case stop_tunnels (drop i tunnels) w of
        (tunnels1, w1) \<Rightarrow> (take i tunnels @ tunnels1, [], w1))"
| "stop_loop local_host local_port env (arrived # arriving) i tunnels w =
     (case inbound_connections local_host local_port env arrived tunnels w of
        (tunnels1, w1) \<Rightarrow>
          if i < length tunnels1 then
            (let t = tunnels1 ! i;
                 w2 = emit (EvTunnelFinishedSet (tchannel t) (tsock t)) w1;
                 w3 = emit (EvTunnelJoin (tchannel t) (tsock t)) w2
             in stop_loop local_host local_port env arriving (Suc i)
                  (tunnels1[i := t\<lparr>tfinished := True\<rparr>]) w3)
          else (tunnels1, arriving, w1))"

text \<open>
  The body of \<open>Connection.forward_remote\<close>, as the \<open>with\<close> statement runs it on an
  opened session. \<open>inbound\<close> are the channels of the connections that arrive while the
  body of the \<open>with\<close> statement runs, \<open>arriving\<close> those that arrive during the
  \<open>finally\<close> clause, and \<open>block\<close> is how the body of the \<open>with\<close> statement ends.

  The \<open>try\<close> part registers the forward and yields; it ends with the exception that is
  pending, if any, and the \<open>tunnels\<close> list, and says whether the forward is registered.
\<close>

definition forward_remote_try ::
  "int \<Rightarrow> int option \<Rightarrow> string \<Rightarrow> string \<Rightarrow> nat list \<Rightarrow> unit result \<Rightarrow>
   env \<Rightarrow> connection \<Rightarrow> world \<Rightarrow> bool \<times> unit result \<times> tunnel list \<times> world" where
  "forward_remote_try remote_port local_port remote_host local_host inbound block env c w =
     (let local_port1 = port_or local_port remote_port
      in case transport_id c of
           Raise e \<Rightarrow> (False, Raise e, [], w)
         | Return t \<Rightarrow>
             (case call env (EvRequestPortForward t remote_host remote_port) w of
                (Some e, w1) \<Rightarrow> (False, Raise e, [], w1)
              | (None, w1) \<Rightarrow>
                  (case inbound_connections local_host local_port1 env inbound [] w1 of
                     (tunnels, w2) \<Rightarrow> (True, block, tunnels, w2))))"

text \<open>
  The \<open>finally\<close> part stops and joins the tunnels of the list, then cancels the forward;
  an exception of the cancel call replaces the pending one. It returns the \<open>tunnels\<close>
  list as it left it.
\<close>

definition forward_remote_finally ::
  "int \<Rightarrow> string \<Rightarrow> string \<Rightarrow> int \<Rightarrow> nat list list \<Rightarrow> unit result \<Rightarrow> tunnel list \<Rightarrow>
   env \<Rightarrow> connection \<Rightarrow> world \<Rightarrow> unit result \<times> tunnel list \<times> world" where
  "forward_remote_finally remote_port remote_host local_host local_port1 arriving pending tunnels
     env c w =
     (case stop_loop local_host local_port1 env arriving 0 tunnels w of
        (tunnels1, later, w1) \<Rightarrow>
          (case inbound_connections local_host local_port1 env (concat later) tunnels1 w1 of
             (tunnels2, w2) \<Rightarrow>
               (case transport_id c of
                  Raise e \<Rightarrow> (Raise e, tunnels2, w2)
                | Return t \<Rightarrow>
                    (case call env (EvCancelPortForward t remote_host remote_port) w2 of
                       (Some e, w3) \<Rightarrow> (Raise e, tunnels2, w3)
                     | (None, w3) \<Rightarrow> (pending, tunnels2, w3)))))"

definition forward_remote_scope ::
  "int \<Rightarrow> int option \<Rightarrow> string \<Rightarrow> string \<Rightarrow> nat list \<Rightarrow> nat list list \<Rightarrow> unit result \<Rightarrow>
   env \<Rightarrow> connection \<Rightarrow> world \<Rightarrow> unit result \<times> tunnel list \<times> world" where
  "forward_remote_scope remote_port local_port remote_host local_host inbound arriving block
     env c w =
     (case forward_remote_try remote_port local_port remote_host local_host inbound block env c w of
        (registered, pending, tunnels, w1) \<Rightarrow>
          forward_remote_finally remote_port remote_host local_host
            (port_or local_port remote_port) (if registered then arriving else [])
            pending tunnels env c w1)"

text \<open>\<open>Connection.forward_remote\<close>\<close>

definition forward_remote ::
  "int \<Rightarrow> int option \<Rightarrow> string \<Rightarrow> string \<Rightarrow> nat list \<Rightarrow> nat list list \<Rightarrow> unit result \<Rightarrow>
   env \<Rightarrow> connection \<Rightarrow> world \<Rightarrow> unit result \<times> connection \<times> world" where
  "forward_remote remote_port local_port remote_host local_host inbound arriving block =
     opens (\<lambda>env c w.
       case forward_remote_scope remote_port local_port remote_host local_host inbound arriving
              block env c w of
         (r, tunnels, w1) \<Rightarrow> (r, c, w1))"


section \<open>Example inputs\<close>

text \<open>An environment in which no call fails, with Paramiko's placeholder expansion.\<close>

definition env_ok :: env where
  "env_ok = \<lparr>fails = (\<lambda>history e. None),
             sshconfig_proxycommand = paramiko_proxycommand ''/home/me'' ''me'',
             remote_result = (\<lambda>history command. [])\<rparr>"

text \<open>The same, except that every outbound local socket connect is refused.\<close>

definition env_refused :: env where
  "env_refused = \<lparr>fails = (\<lambda>history e. case e of EvSockConnect s a \<Rightarrow> Some (SocketError ''refused'')
                                          | _ \<Rightarrow> None),
                  sshconfig_proxycommand = paramiko_proxycommand ''/home/me'' ''me'',
                  remote_result = (\<lambda>history command. [])\<rparr>"

definition world0 :: world where
  "world0 = \<lparr>events = [], fresh = 0\<rparr>"

definition default_config :: config where
  "default_config = \<lparr>cfg_user = ''me'', cfg_port = 22, cfg_gateway = GwNone,
                     cfg_forward_agent = False, cfg_connect_kwargs = [],
                     base_ssh_config = (\<lambda>h. [])\<rparr>"

text \<open>A configuration whose SSH configuration names a jump host for \<open>inner\<close>, and whose
  own gateway setting is a proxy command.\<close>

definition jump_config :: config where
  "jump_config = \<lparr>cfg_user = ''me'', cfg_port = 22, cfg_gateway = GwCommand ''nc %h %p'',
                  cfg_forward_agent = False, cfg_connect_kwargs = [],
                  base_ssh_config = (\<lambda>h. if h = Some ''inner'' then [(''proxyjump'', ''bastion'')]
                                          else [])\<rparr>"

text \<open>A configuration whose SSH configuration gives every host a user and a port.\<close>

definition ssh_port_config :: config where
  "ssh_port_config = \<lparr>cfg_user = ''me'', cfg_port = 22, cfg_gateway = GwNone,
                      cfg_forward_agent = False, cfg_connect_kwargs = [],
                      base_ssh_config = (\<lambda>h. [(''user'', ''deploy''), (''port'', ''2200'')])\<rparr>"

definition plain_session :: connection where
  "plain_session = Connection (Some ''db'') (Some ''db'') ''me'' 22 [] GwNone False [] None None None"

definition agent_session :: connection where
  "agent_session = Connection (Some ''db'') (Some ''db'') ''me'' 22 [] GwNone True [] None None None"

definition proxy_session :: connection where
  "proxy_session = Connection (Some ''example.com'') (Some ''example.com'') ''me'' 2222 []
                     (GwCommand ''nc %h %p'') False [] None None None"

definition jump_session :: connection where
  "jump_session = Connection (Some ''inner'') (Some ''inner'') ''me'' 2222 []
                    (GwJump plain_session) False [] None None None"

text \<open>A session with a jump gateway whose \<open>connect_kwargs\<close> bring a socket of their own.\<close>

definition jump_session_sock :: connection where
  "jump_session_sock = Connection (Some ''inner'') (Some ''inner'') ''me'' 2222 []
                         (GwJump plain_session) False [(''sock'', PSock (OtherSock 9))]
                         None None None"

section \<open>Properties\<close>

declare open.simps [simp del] open_gateway.simps [simp del]

subsection \<open>Attributes after an assignment\<close>

lemma set_transport_sel [simp]:
  "transport (set_transport t c) = t"
  "host (set_transport t c) = host c"
  "user (set_transport t c) = user c"
  "port (set_transport t c) = port c"
  "gateway (set_transport t c) = gateway c"
  "forward_agent (set_transport t c) = forward_agent c"
  "connect_kwargs (set_transport t c) = connect_kwargs c"
  "agent_handler (set_transport t c) = agent_handler c"
  "sftp_handle (set_transport t c) = sftp_handle c"
  by (cases c; simp)+

lemma set_gateway_sel [simp]:
  "gateway (set_gateway g c) = g"
  "transport (set_gateway g c) = transport c"
  "host (set_gateway g c) = host c"
  "user (set_gateway g c) = user c"
  "port (set_gateway g c) = port c"
  "forward_agent (set_gateway g c) = forward_agent c"
  "connect_kwargs (set_gateway g c) = connect_kwargs c"
  "agent_handler (set_gateway g c) = agent_handler c"
  by (cases c; simp)+

lemma set_gateway_same [simp]: "set_gateway (gateway c) c = c"
  by (cases c) simp

lemma set_sftp_sel [simp]:
  "sftp_handle (set_sftp s c) = s"
  "transport (set_sftp s c) = transport c"
  by (cases c; simp)+

lemma set_agent_handler_sel [simp]:
  "agent_handler (set_agent_handler a c) = a"
  "transport (set_agent_handler a c) = transport c"
  "forward_agent (set_agent_handler a c) = forward_agent c"
  by (cases c; simp)+

lemma is_connected_set_transport [simp]:
  "is_connected (set_transport (Some \<lparr>tid = t, active = True\<rparr>) c)"
  by (simp add: is_connected_def)

subsection \<open>Opening\<close>

lemma connect_Return:
  "connect env kwargs c w = (Return u, c1, w1) \<Longrightarrow> is_connected c1"
  by (auto simp: connect_def call_def new_id_def split: option.splits)

lemma open_connected [simp]:
  "is_connected c \<Longrightarrow> open env c w = (Return (), c, w)"
  by (simp add: open.simps)

lemma open_Return_connected:
  assumes "open env c w = (Return u, c1, w1)"
  shows "is_connected c1"
proof (cases "is_connected c")
  case True
  with assms show ?thesis by simp
next
  case False
  with assms show ?thesis
    by (auto simp: open.simps Let_def dest: connect_Return
             split: if_splits prod.splits result.splits)
qed

subsection \<open>Local forwarding\<close>

lemma forward_local_after_open:
  assumes "open env c w = (Return (), c1, w1)"
    and "fails env (events w1) (EvManagerStart (map_option tid (transport c1))
            (local_host, local_port) (remote_host, port_or remote_port local_port)) = None"
  shows "forward_local local_port remote_port remote_host local_host block manager_exception env c w =
           (case manager_exception of
              None \<Rightarrow> block
            | Some wrapper \<Rightarrow>
                if type_is_ThreadException wrapper then Raise (wvalue wrapper)
                else Raise (ThreadException [wrapper]),
            c1,
            w1\<lparr>events := events w1 @
                 [EvManagerStart (map_option tid (transport c1))
                    (local_host, local_port) (remote_host, port_or remote_port local_port),
                  EvFinishedSet, EvManagerJoin]\<rparr>)"
  using assms
  by (simp add: forward_local_def opens_def call_def emit_def split: option.splits)

lemma open_plain_session:
  "open env_ok plain_session world0 =
     (Return (),
      set_transport (Some \<lparr>tid = 0, active = True\<rparr>) plain_session,
      \<lparr>events = [EvConnect [(''username'', PStr ''me''), (''hostname'', PStr ''db''),
                            (''port'', PInt 22)]],
       fresh = 1\<rparr>)"
  by (simp add: open.simps is_connected_def plain_session_def env_ok_def world0_def
                connect_def call_def emit_def new_id_def dict_update_def hostval_def)

text \<open>
  C1, as the code has it. Whenever the body of a \<open>forward_local\<close> scope raises, the
  teardown runs to its end: the shutdown event is set and the manager is joined, and
  these are the last calls of the scope. What propagates then is the worker failure if the
  manager recorded one (its \<open>ThreadException\<close>, or a new one around its own failure); the
  exception of the body propagates only when the manager recorded none.
\<close>

theorem forward_local_body_raises:
  assumes "open env c w = (Return (), c1, w1)"
    and "fails env (events w1) (EvManagerStart (map_option tid (transport c1))
            (local_host, local_port) (remote_host, port_or remote_port local_port)) = None"
  shows "events (snd (snd (forward_local local_port remote_port remote_host local_host
                             (Raise e) manager_exception env c w))) =
           events w1 @ [EvManagerStart (map_option tid (transport c1))
                          (local_host, local_port) (remote_host, port_or remote_port local_port),
                        EvFinishedSet, EvManagerJoin]
         \<and> (manager_exception = None \<longrightarrow>
              fst (forward_local local_port remote_port remote_host local_host
                     (Raise e) manager_exception env c w) = Raise e)
         \<and> (\<forall>wrapper. manager_exception = Some wrapper \<longrightarrow>
              fst (forward_local local_port remote_port remote_host local_host
                     (Raise e) manager_exception env c w) =
              (if type_is_ThreadException wrapper then Raise (wvalue wrapper)
               else Raise (ThreadException [wrapper])))"
  by (simp add: forward_local_after_open [OF assms])

theorem forward_local_body_raises_witness:
  "fst (forward_local 5432 None ''localhost'' ''localhost'' (Raise (UserError ''boom''))
          (Some (ExceptionWrapper (ThreadException [ExceptionWrapper (SocketError ''reset'')])))
          env_ok plain_session world0) =
     Raise (ThreadException [ExceptionWrapper (SocketError ''reset'')])
   \<and> fst (forward_local 5432 None ''localhost'' ''localhost'' (Raise (UserError ''boom''))
            None env_ok plain_session world0) = Raise (UserError ''boom'')"
proof -
  have ok: "fails env_ok hist ev = None" for hist ev
    by (simp add: env_ok_def)
  show ?thesis
    using forward_local_body_raises [OF open_plain_session ok,
            where local_port = 5432 and local_host = "''localhost''"
              and remote_host = "''localhost''" and remote_port = None
              and e = "UserError ''boom''"
              and manager_exception =
                "Some (ExceptionWrapper (ThreadException [ExceptionWrapper (SocketError ''reset'')]))"]
          forward_local_body_raises [OF open_plain_session ok,
            where local_port = 5432 and local_host = "''localhost''"
              and remote_host = "''localhost''" and remote_port = None
              and e = "UserError ''boom''" and manager_exception = None]
    by simp
qed

text \<open>
  C1, as the claim states it, fails: the body raises, the manager recorded a failure, and
  the caller gets the \<open>ThreadException\<close>, not the exception of the body.
\<close>

theorem forward_local_user_exception_replaced:
  "fst (forward_local 5432 None ''localhost'' ''localhost'' (Raise (UserError ''boom''))
          (Some (ExceptionWrapper (SocketError ''reset''))) env_ok plain_session world0) =
     Raise (ThreadException [ExceptionWrapper (SocketError ''reset'')])
   \<and> fst (forward_local 5432 None ''localhost'' ''localhost'' (Raise (UserError ''boom''))
            (Some (ExceptionWrapper (SocketError ''reset''))) env_ok plain_session world0) \<noteq>
     Raise (UserError ''boom'')"
proof -
  have ok: "fails env_ok hist ev = None" for hist ev
    by (simp add: env_ok_def)
  show ?thesis
    by (simp add: forward_local_after_open [OF open_plain_session ok])
qed

text \<open>
  C4, as the code has it. At the teardown of a \<open>forward_local\<close> scope, with the
  failures that exist across the manager and its tunnels: if there is none, the teardown
  raises nothing and the scope ends as its body did; if there is exactly one, it is
  raised inside a new \<open>ThreadException\<close> that carries this one failure (as it is only
  if it is a \<open>ThreadException\<close> itself); if there are more, one \<open>ThreadException\<close>
  that carries every one of them is raised.
\<close>

theorem forward_local_raises_manager_failure:
  assumes "open env c w = (Return (), c1, w1)"
    and "fails env (events w1) (EvManagerStart (map_option tid (transport c1))
            (local_host, local_port) (remote_host, port_or remote_port local_port)) = None"
  shows "(TunnelManager_failures own tunnel_slots = [] \<longrightarrow>
            fst (forward_local local_port remote_port remote_host local_host block
                   (TunnelManager_exception (TunnelManager_failures own tunnel_slots)) env c w) =
            block)
       \<and> (\<forall>wrapper. TunnelManager_failures own tunnel_slots = [wrapper] \<longrightarrow>
            fst (forward_local local_port remote_port remote_host local_host block
                   (TunnelManager_exception (TunnelManager_failures own tunnel_slots)) env c w) =
            (if type_is_ThreadException wrapper then Raise (wvalue wrapper)
             else Raise (ThreadException [wrapper])))
       \<and> (1 < length (TunnelManager_failures own tunnel_slots) \<longrightarrow>
            fst (forward_local local_port remote_port remote_host local_host block
                   (TunnelManager_exception (TunnelManager_failures own tunnel_slots)) env c w) =
            Raise (ThreadException (TunnelManager_failures own tunnel_slots)))"
  by (auto simp: forward_local_after_open [OF assms] TunnelManager_exception_def
           split: list.splits)

theorem forward_local_raises_manager_failure_witness:
  "fst (forward_local 5432 (Some 5433) ''dbhost'' ''localhost'' (Return ())
          (TunnelManager_exception (TunnelManager_failures None [None, None]))
          env_ok plain_session world0) = Return ()
   \<and> fst (forward_local 5432 (Some 5433) ''dbhost'' ''localhost'' (Return ())
            (TunnelManager_exception (TunnelManager_failures None
               [None, Some (ExceptionWrapper (SocketError ''reset''))]))
            env_ok plain_session world0) =
       Raise (ThreadException [ExceptionWrapper (SocketError ''reset'')])
   \<and> fst (forward_local 5432 (Some 5433) ''dbhost'' ''localhost'' (Return ())
            (TunnelManager_exception (TunnelManager_failures
               (Some (ExceptionWrapper (SocketError ''accept'')))
               [Some (ExceptionWrapper (SocketError ''a'')), None,
                Some (ExceptionWrapper (SocketError ''b''))]))
            env_ok plain_session world0) =
       Raise (ThreadException [ExceptionWrapper (SocketError ''accept''),
                               ExceptionWrapper (SocketError ''a''),
                               ExceptionWrapper (SocketError ''b'')])"
proof -
  have ok: "fails env_ok hist ev = None" for hist ev
    by (simp add: env_ok_def)
  show ?thesis
    using forward_local_raises_manager_failure [OF open_plain_session ok,
            where local_port = 5432 and local_host = "''localhost''"
              and remote_host = "''dbhost''" and remote_port = "Some 5433"
              and block = "Return ()" and own = None and tunnel_slots = "[None, None]"]
          forward_local_raises_manager_failure [OF open_plain_session ok,
            where local_port = 5432 and local_host = "''localhost''"
              and remote_host = "''dbhost''" and remote_port = "Some 5433"
              and block = "Return ()" and own = None
              and tunnel_slots = "[None, Some (ExceptionWrapper (SocketError ''reset''))]"]
          forward_local_raises_manager_failure [OF open_plain_session ok,
            where local_port = 5432 and local_host = "''localhost''"
              and remote_host = "''dbhost''" and remote_port = "Some 5433"
              and block = "Return ()"
              and own = "Some (ExceptionWrapper (SocketError ''accept''))"
              and tunnel_slots = "[Some (ExceptionWrapper (SocketError ''a'')), None,
                                   Some (ExceptionWrapper (SocketError ''b''))]"]
    by (simp add: TunnelManager_failures_def)
qed

text \<open>
  C4, as the claim states it, fails: exactly one failure exists, the manager's own, and
  the caller does not get that error as it is but a \<open>ThreadException\<close> around it.
\<close>

theorem forward_local_single_failure_wrapped:
  "TunnelManager_failures (Some (ExceptionWrapper (SocketError ''bind''))) [None, None] =
     [ExceptionWrapper (SocketError ''bind'')]
   \<and> fst (forward_local 5432 None ''localhost'' ''localhost'' (Return ())
            (TunnelManager_exception
               (TunnelManager_failures (Some (ExceptionWrapper (SocketError ''bind''))) [None, None]))
            env_ok plain_session world0) =
       Raise (ThreadException [ExceptionWrapper (SocketError ''bind'')])
   \<and> fst (forward_local 5432 None ''localhost'' ''localhost'' (Return ())
            (TunnelManager_exception
               (TunnelManager_failures (Some (ExceptionWrapper (SocketError ''bind''))) [None, None]))
            env_ok plain_session world0) \<noteq>
       Raise (SocketError ''bind'')"
proof -
  have ok: "fails env_ok hist ev = None" for hist ev
    by (simp add: env_ok_def)
  show ?thesis
    by (simp add: forward_local_after_open [OF open_plain_session ok]
                  TunnelManager_failures_def TunnelManager_exception_def)
qed

subsection \<open>The proxy command of a gateway string\<close>

lemma paramiko_example:
  "paramiko_proxycommand ''/home/me'' ''me'' (dummy (Some ''example.com'') ''nc %h %p'')
     (Some ''example.com'') = Return ''nc example.com 22''"
  by (simp add: paramiko_proxycommand_def dummy_def format_host_def paramiko_expand_def
                SSH_PORT_def str_replace.simps)

text \<open>
  Whatever \<open>SSHConfig\<close> does with the text: \<open>open_gateway\<close> hands it the host and the
  gateway string only, so two sessions that differ in their port get the same command.
\<close>

lemma open_gateway_command_ignores_port:
  assumes "gateway c = GwCommand g" and "gateway c' = GwCommand g" and "host c' = host c"
  shows "fst (open_gateway env c' w) = fst (open_gateway env c w)"
  using assms
  by (simp add: open_gateway.simps call_def split: result.splits option.splits)

text \<open>
  C3 fails on the code. For the session with the gateway string \<open>nc %h %p\<close>, host
  \<open>example.com\<close> and port 2222, \<open>open_gateway\<close> spawns \<open>nc example.com 22\<close>: the
  dummy configuration text has no \<open>Port\<close> line, so \<open>%p\<close> becomes the SSH default port
  and not the port of the session.
\<close>

theorem open_gateway_proxycommand_port:
  "port proxy_session = 2222
   \<and> open_gateway env_ok proxy_session world0 =
       (Return (ProxyCommand ''nc example.com 22''), proxy_session,
        \<lparr>events = [EvProxyCommand ''nc example.com 22''], fresh = 0\<rparr>)
   \<and> fst (open_gateway env_ok proxy_session world0) \<noteq>
       Return (ProxyCommand ''nc example.com 2222'')"
  by (simp add: open_gateway.simps proxy_session_def env_ok_def world0_def paramiko_example
                call_def emit_def)

subsection \<open>The callback of a remote forward\<close>

text \<open>
  C2 fails on the code. When the local connect is refused, the callback raises out of
  \<open>sock.connect\<close>: that call is all it did, the inbound channel 7 is not closed and no
  tunnel is tracked. The scope around it ends as if nothing had happened: it returns
  normally, and no call in its log closes the channel.
\<close>

theorem callback_connect_refused:
  "callback ''localhost'' 8080 env_refused 7 [] world0 =
     (Raise (SocketError ''refused''), [],
      \<lparr>events = [EvSockConnect 0 (''localhost'', 8080)], fresh = 1\<rparr>)
   \<and> fst (forward_remote 8080 None ''127.0.0.1'' ''localhost'' [7] [] (Return ())
            env_refused plain_session world0) = Return ()
   \<and> events (snd (snd (forward_remote 8080 None ''127.0.0.1'' ''localhost'' [7] [] (Return ())
                         env_refused plain_session world0))) =
       [EvConnect [(''username'', PStr ''me''), (''hostname'', PStr ''db''), (''port'', PInt 22)],
        EvRequestPortForward 0 ''127.0.0.1'' 8080,
        EvSockConnect 1 (''localhost'', 8080),
        EvCancelPortForward 0 ''127.0.0.1'' 8080]"
  by (simp add: callback_def forward_remote_def forward_remote_scope_def
                forward_remote_try_def forward_remote_finally_def opens_def
                open.simps is_connected_def connect_def transport_id_def port_or_def
                plain_session_def env_refused_def world0_def dict_update_def hostval_def
                call_def emit_def new_id_def)

subsection \<open>Remote forwarding\<close>


lemma stop_events_filters [simp]:
  "filter is_cancel (concat (map stop_events ts)) = []"
  "filter is_stop (concat (map stop_events ts)) = concat (map stop_events ts)"
  by (induction ts) (simp_all add: stop_events_def)

lemma stop_events_finished [simp]:
  "stop_events (t\<lparr>tfinished := b\<rparr>) = stop_events t"
  by (simp add: stop_events_def)













subsection \<open>Opening once\<close>

lemma opens_after_open:
  "opens m env c w =
     (case open env c w of
        (Raise e, c1, w1) \<Rightarrow> (Raise e, c1, w1)
      | (Return u, c1, w1) \<Rightarrow> opens m env c1 w1)"
proof (cases "open env c w")
  case (fields r c1 w1)
  show ?thesis
  proof (cases r)
    case (Raise e)
    with fields show ?thesis by (simp add: opens_def)
  next
    case (Return u)
    with fields have "is_connected c1" by (auto dest: open_Return_connected)
    with fields Return show ?thesis by (simp add: opens_def)
  qed
qed

text \<open>
  C6. \<open>open\<close> on a connected session does nothing, no connect included; after an
  \<open>open\<close> that returned, the session is connected, so a second \<open>open\<close> does nothing.
  \<open>run\<close>, \<open>sftp\<close>, \<open>forward_local\<close> and \<open>forward_remote\<close> on any session do
  what \<open>open\<close> followed by the same operation on the opened session does, and raise
  what \<open>open\<close> raises.
\<close>

theorem open_idempotent:
  "(is_connected c \<longrightarrow> open env c w = (Return (), c, w))
   \<and> (\<forall>c1 w1. open env c w = (Return (), c1, w1) \<longrightarrow>
         is_connected c1 \<and> open env c1 w1 = (Return (), c1, w1))
   \<and> run command env c w =
       (case open env c w of
          (Raise e, c1, w1) \<Rightarrow> (Raise e, c1, w1)
        | (Return u, c1, w1) \<Rightarrow> run command env c1 w1)
   \<and> sftp env c w =
       (case open env c w of
          (Raise e, c1, w1) \<Rightarrow> (Raise e, c1, w1)
        | (Return u, c1, w1) \<Rightarrow> sftp env c1 w1)
   \<and> forward_local lport rport rhost lhost block mx env c w =
       (case open env c w of
          (Raise e, c1, w1) \<Rightarrow> (Raise e, c1, w1)
        | (Return u, c1, w1) \<Rightarrow> forward_local lport rport rhost lhost block mx env c1 w1)
   \<and> forward_remote rport' lport' rhost' lhost' inbound arriving block' env c w =
       (case open env c w of
          (Raise e, c1, w1) \<Rightarrow> (Raise e, c1, w1)
        | (Return u, c1, w1) \<Rightarrow>
            forward_remote rport' lport' rhost' lhost' inbound arriving block' env c1 w1)"
proof (intro conjI)
  show "is_connected c \<longrightarrow> open env c w = (Return (), c, w)" by simp
  show "\<forall>c1 w1. open env c w = (Return (), c1, w1) \<longrightarrow>
         is_connected c1 \<and> open env c1 w1 = (Return (), c1, w1)"
    by (auto dest: open_Return_connected)
qed (simp_all only: run_def sftp_def forward_local_def forward_remote_def opens_after_open [symmetric])

theorem open_idempotent_witness:
  "open env_ok (set_transport (Some \<lparr>tid = 0, active = True\<rparr>) plain_session)
     \<lparr>events = [EvConnect [(''username'', PStr ''me''), (''hostname'', PStr ''db''),
                           (''port'', PInt 22)]],
      fresh = 1\<rparr> =
     (Return (), set_transport (Some \<lparr>tid = 0, active = True\<rparr>) plain_session,
      \<lparr>events = [EvConnect [(''username'', PStr ''me''), (''hostname'', PStr ''db''),
                            (''port'', PInt 22)]],
       fresh = 1\<rparr>)
   \<and> run ''ls'' env_ok plain_session world0 =
       run ''ls'' env_ok (set_transport (Some \<lparr>tid = 0, active = True\<rparr>) plain_session)
         \<lparr>events = [EvConnect [(''username'', PStr ''me''), (''hostname'', PStr ''db''),
                               (''port'', PInt 22)]],
          fresh = 1\<rparr>"
  using open_idempotent [where c = plain_session and env = env_ok and w = world0
          and command = "''ls''" and lport = 0 and rport = None and rhost = "[]" and lhost = "[]"
          and block = "Return ()" and mx = None and rport' = 0 and lport' = None
          and rhost' = "[]" and lhost' = "[]" and inbound = "[]" and arriving = "[]"
          and block' = "Return ()"]
        open_plain_session
  by simp


subsection \<open>Closing\<close>

lemma close_not_connected:
  "\<not> is_connected c \<Longrightarrow> close env c w = (Return (), c, w)"
  by (simp add: close_def)

lemma close_Return_disconnects:
  "close env c w = (Return u, c1, w1) \<Longrightarrow> \<not> is_connected c1"
  by (auto simp: close_def call_def is_connected_def Let_def
           split: if_splits option.splits)

text \<open>
  C9. \<open>close\<close> on a session that is not connected does nothing: the session and the
  world are as before. So two calls of \<open>close\<close> in a row do what one call does. On a
  connected session, after \<open>client.close()\<close>, the agent handler is closed exactly when
  agent forwarding is enabled and a handler was created.
\<close>

theorem close_idempotent:
  "(\<not> is_connected c \<longrightarrow> close env c w = (Return (), c, w))
   \<and> (case close env c w of
         (Raise e, c1, w1) \<Rightarrow> (Raise e, c1, w1)
       | (Return u, c1, w1) \<Rightarrow> close env c1 w1) = close env c w
   \<and> (\<forall>t. is_connected c \<and> transport c = Some t
            \<and> fails env (events w) (EvClientClose (tid t)) = None \<longrightarrow>
          events (snd (snd (close env c w))) =
            events w @ EvClientClose (tid t) #
              (case agent_handler c of
                 Some h \<Rightarrow> if forward_agent c then [EvAgentClose h] else []
               | None \<Rightarrow> []))"
proof (intro conjI)
  show "\<not> is_connected c \<longrightarrow> close env c w = (Return (), c, w)"
    by (simp add: close_not_connected)
next
  show "(case close env c w of
         (Raise e, c1, w1) \<Rightarrow> (Raise e, c1, w1)
       | (Return u, c1, w1) \<Rightarrow> close env c1 w1) = close env c w"
  proof (cases "close env c w")
    case (fields r c1 w1)
    show ?thesis
    proof (cases r)
      case (Raise e)
      with fields show ?thesis by simp
    next
      case (Return u)
      with fields have "\<not> is_connected c1" by (auto dest: close_Return_disconnects)
      with fields Return show ?thesis by (simp add: close_not_connected)
    qed
  qed
next
  show "\<forall>t. is_connected c \<and> transport c = Some t
            \<and> fails env (events w) (EvClientClose (tid t)) = None \<longrightarrow>
          events (snd (snd (close env c w))) =
            events w @ EvClientClose (tid t) #
              (case agent_handler c of
                 Some h \<Rightarrow> if forward_agent c then [EvAgentClose h] else []
               | None \<Rightarrow> [])"
    by (auto simp: close_def call_def emit_def Let_def split: option.splits)
qed

theorem close_idempotent_witness:
  "close env_ok plain_session world0 = (Return (), plain_session, world0)
   \<and> events (snd (snd (close env_ok
         (set_agent_handler (Some 5) (set_transport (Some \<lparr>tid = 0, active = True\<rparr>) agent_session))
         world0))) = [EvClientClose 0, EvAgentClose 5]
   \<and> events (snd (snd (close env_ok
         (set_agent_handler (Some 5) (set_transport (Some \<lparr>tid = 0, active = True\<rparr>) plain_session))
         world0))) = [EvClientClose 0]"
  using close_idempotent [of plain_session env_ok world0]
        close_idempotent [of "set_agent_handler (Some 5)
                                (set_transport (Some \<lparr>tid = 0, active = True\<rparr>) agent_session)"
                             env_ok world0]
        close_idempotent [of "set_agent_handler (Some 5)
                                (set_transport (Some \<lparr>tid = 0, active = True\<rparr>) plain_session)"
                             env_ok world0]
  by (simp add: is_connected_def plain_session_def agent_session_def env_ok_def world0_def)


subsection \<open>A session as the gateway\<close>

lemma map_of_dict_update:
  "k \<notin> fst ` set other \<Longrightarrow> map_of (dict_update d other) k = map_of d k"
  unfolding dict_update_def
  by (induction other arbitrary: d) (auto simp: update_conv')

lemma open_gateway_jump:
  assumes "gateway c = GwJump g"
    and "open env g w = (Return (), g1, w1)"
    and "transport g1 = Some t"
    and "fails env (events w1) (EvOpenChannel (tid t) ''direct-tcpip'' (host c, port c) ('''', 0)) = None"
  shows "open_gateway env c w =
           (Return (Channel (fresh w1)), set_gateway (GwJump g1) c,
            w1\<lparr>events := events w1 @ [EvOpenChannel (tid t) ''direct-tcpip'' (host c, port c) ('''', 0)],
               fresh := Suc (fresh w1)\<rparr>)"
  using assms
  by (simp add: open_gateway.simps call_def emit_def new_id_def)

text \<open>
  C5, as the code has it. For a session whose gateway is another session: \<open>open_gateway\<close>
  first opens the gateway session; when that returns, the gateway session is connected,
  and exactly one call follows, \<open>open_channel\<close> on the gateway session's transport,
  of kind \<open>direct-tcpip\<close>, to this session's host and port and from \<open>('', 0)\<close>; the
  new channel is what \<open>open_gateway\<close> returns. \<open>open\<close> then connects with that
  channel as \<open>sock\<close>, unless \<open>connect_kwargs\<close> has a \<open>sock\<close> entry of its own, which
  is stored after it.
\<close>

theorem open_gateway_proxyjump:
  assumes gw: "gateway c = GwJump g"
    and op: "open env g w = (Return (), g1, w1)"
    and tr: "transport g1 = Some t"
    and ch: "fails env (events w1) (EvOpenChannel (tid t) ''direct-tcpip'' (host c, port c) ('''', 0)) = None"
  shows "is_connected g1
       \<and> open_gateway env c w =
           (Return (Channel (fresh w1)), set_gateway (GwJump g1) c,
            w1\<lparr>events := events w1 @ [EvOpenChannel (tid t) ''direct-tcpip'' (host c, port c) ('''', 0)],
               fresh := Suc (fresh w1)\<rparr>)
       \<and> (\<not> is_connected c \<longrightarrow>
            events (snd (snd (open env c w))) =
              events w1 @
              [EvOpenChannel (tid t) ''direct-tcpip'' (host c, port c) ('''', 0),
               EvConnect (dict_update
                            [(''username'', PStr (user c)), (''hostname'', hostval (host c)),
                             (''port'', PInt (port c)), (''sock'', PSock (Channel (fresh w1)))]
                            (connect_kwargs c))]
            \<and> (''sock'' \<notin> fst ` set (connect_kwargs c) \<longrightarrow>
                 map_of (dict_update
                            [(''username'', PStr (user c)), (''hostname'', hostval (host c)),
                             (''port'', PInt (port c)), (''sock'', PSock (Channel (fresh w1)))]
                            (connect_kwargs c)) ''sock'' = Some (PSock (Channel (fresh w1)))))"
proof (intro conjI impI)
  show "is_connected g1" using op by (rule open_Return_connected)
  show "open_gateway env c w =
           (Return (Channel (fresh w1)), set_gateway (GwJump g1) c,
            w1\<lparr>events := events w1 @ [EvOpenChannel (tid t) ''direct-tcpip'' (host c, port c) ('''', 0)],
               fresh := Suc (fresh w1)\<rparr>)"
    by (rule open_gateway_jump [OF gw op tr ch])
next
  assume "\<not> is_connected c"
  then show "events (snd (snd (open env c w))) =
              events w1 @
              [EvOpenChannel (tid t) ''direct-tcpip'' (host c, port c) ('''', 0),
               EvConnect (dict_update
                            [(''username'', PStr (user c)), (''hostname'', hostval (host c)),
                             (''port'', PInt (port c)), (''sock'', PSock (Channel (fresh w1)))]
                            (connect_kwargs c))]"
    using gw
    by (simp add: open.simps [of env c w] open_gateway_jump [OF gw op tr ch] connect_def call_def
                  emit_def new_id_def Let_def split: option.splits)
next
  assume "''sock'' \<notin> fst ` set (connect_kwargs c)"
  then show "map_of (dict_update
                            [(''username'', PStr (user c)), (''hostname'', hostval (host c)),
                             (''port'', PInt (port c)), (''sock'', PSock (Channel (fresh w1)))]
                            (connect_kwargs c)) ''sock'' = Some (PSock (Channel (fresh w1)))"
    by (simp add: map_of_dict_update)
qed

theorem open_gateway_proxyjump_witness:
  "events (snd (snd (open env_ok jump_session world0))) =
     [EvConnect [(''username'', PStr ''me''), (''hostname'', PStr ''db''), (''port'', PInt 22)],
      EvOpenChannel 0 ''direct-tcpip'' (Some ''inner'', 2222) ('''', 0),
      EvConnect [(''username'', PStr ''me''), (''hostname'', PStr ''inner''), (''port'', PInt 2222),
                 (''sock'', PSock (Channel 1))]]"
proof -
  have gw: "gateway jump_session = GwJump plain_session"
    by (simp add: jump_session_def)
  have tr: "transport (set_transport (Some \<lparr>tid = 0, active = True\<rparr>) plain_session) =
              Some \<lparr>tid = 0, active = True\<rparr>"
    by simp
  have ch: "fails env_ok hist ev = None" for hist ev
    by (simp add: env_ok_def)
  show ?thesis
    using open_gateway_proxyjump [OF gw open_plain_session tr ch]
    by (simp add: jump_session_def is_connected_def dict_update_def hostval_def)
qed

text \<open>
  C5, as the claim states it, fails: with a \<open>sock\<close> entry in \<open>connect_kwargs\<close>, the
  channel \<open>open_gateway\<close> returned is not the socket the connect call gets.
\<close>

theorem open_connect_kwargs_sock_wins:
  "fst (open_gateway env_ok jump_session_sock world0) = Return (Channel 1)
   \<and> events (snd (snd (open env_ok jump_session_sock world0))) =
     [EvConnect [(''username'', PStr ''me''), (''hostname'', PStr ''db''), (''port'', PInt 22)],
      EvOpenChannel 0 ''direct-tcpip'' (Some ''inner'', 2222) ('''', 0),
      EvConnect [(''username'', PStr ''me''), (''hostname'', PStr ''inner''), (''port'', PInt 2222),
                 (''sock'', PSock (OtherSock 9))]]"
proof -
  have gw: "gateway jump_session_sock = GwJump plain_session"
    by (simp add: jump_session_sock_def)
  have tr: "transport (set_transport (Some \<lparr>tid = 0, active = True\<rparr>) plain_session) =
              Some \<lparr>tid = 0, active = True\<rparr>"
    by simp
  have ch: "fails env_ok hist ev = None" for hist ev
    by (simp add: env_ok_def)
  have og: "open_gateway env_ok jump_session_sock world0 =
        (Return (Channel 1), set_gateway (GwJump (set_transport (Some \<lparr>tid = 0, active = True\<rparr>) plain_session)) jump_session_sock,
         \<lparr>events = [EvConnect [(''username'', PStr ''me''), (''hostname'', PStr ''db''), (''port'', PInt 22)],
                    EvOpenChannel 0 ''direct-tcpip'' (Some ''inner'', 2222) ('''', 0)], fresh = 2\<rparr>)"
    using open_gateway_jump [OF gw open_plain_session tr ch]
    by (simp add: jump_session_sock_def)
  have nc: "\<not> is_connected jump_session_sock"
    by (simp add: is_connected_def jump_session_sock_def)
  show ?thesis
    by (simp add: open.simps [of env_ok jump_session_sock world0] og nc gw)
       (simp add: jump_session_sock_def is_connected_def dict_update_def hostval_def connect_def
                  call_def emit_def new_id_def env_ok_def)
qed

subsection \<open>Construction\<close>

declare Connection_init.simps [simp del]

lemma derive_shorthand_user_nonempty:
  assumes "derive_shorthand hs = Return sh" and "sh_user sh = Some u"
  shows "u \<noteq> []"
  using assms
  by (auto simp: derive_shorthand_def Let_def split: if_splits option.splits)

lemma Connection_init_Return:
  assumes "Connection_init (Suc depth) dflt host_string user_arg port_arg config_arg
             gateway_arg fa_arg kw_arg = Return c"
    and "derive_shorthand host_string = Return sh"
  shows "\<exists>user0 port0.
           merge_shorthand ''user'' (sh_user sh) user_arg = Return user0
         \<and> merge_shorthand ''port'' (sh_port sh) port_arg = Return port0
         \<and> user c = resolve_user (case config_arg of None \<Rightarrow> dflt | Some cf \<Rightarrow> cf) (ssh_config c) user0
         \<and> resolve_port (case config_arg of None \<Rightarrow> dflt | Some cf \<Rightarrow> cf) (ssh_config c) port0 = Return (port c)
         \<and> ssh_config c = base_ssh_config (case config_arg of None \<Rightarrow> dflt | Some cf \<Rightarrow> cf)
                            (sh_host sh)"
  using assms
  by (simp add: Connection_init.simps Let_def split: result.splits) auto

lemma Connection_init_gateway:
  assumes "Connection_init (Suc depth) dflt host_string user_arg port_arg config_arg
             gateway_arg fa_arg kw_arg = Return c"
  shows "transport c = None
       \<and> ssh_config c = base_ssh_config (case config_arg of None \<Rightarrow> dflt | Some cf \<Rightarrow> cf)
                          (original_host c)
       \<and> (if gateway_arg = GwNone then
            (case map_of (ssh_config c) ''proxyjump'' of
               Some pj \<Rightarrow> \<exists>g. Connection_init depth dflt pj None None None GwNone None None = Return g
                              \<and> gateway c = GwJump g
             | None \<Rightarrow>
                 (case map_of (ssh_config c) ''proxycommand'' of
                    Some pc \<Rightarrow> gateway c = GwCommand pc
                  | None \<Rightarrow> gateway c = cfg_gateway (case config_arg of None \<Rightarrow> dflt | Some cf \<Rightarrow> cf)))
          else gateway c = gateway_arg)"
proof (cases "derive_shorthand host_string")
  case (Raise e)
  with assms show ?thesis by (simp add: Connection_init.simps)
next
  case (Return sh)
  with assms show ?thesis
    by (simp add: Connection_init.simps Let_def split: result.splits)
       (auto split: if_splits option.splits result.splits)
qed

lemma derive_shorthand_Raise:
  assumes "derive_shorthand hs = Raise e"
  shows "\<exists>m. e = ValueError m"
  using assms
  by (auto simp: derive_shorthand_def Let_def split: if_splits option.splits)

lemma Connection_init_shorthand:
  assumes ds: "derive_shorthand host_string = Return sh"
  shows "(sh_user sh \<noteq> None \<and> user_arg \<noteq> None \<longrightarrow>
            Connection_init (Suc depth) dflt host_string user_arg port_arg config_arg
              gateway_arg fa_arg kw_arg = Raise (ValueError (err ''user'')))
       \<and> ((sh_user sh = None \<or> user_arg = None) \<and> sh_port sh \<noteq> None \<and> port_arg \<noteq> None \<longrightarrow>
            Connection_init (Suc depth) dflt host_string user_arg port_arg config_arg
              gateway_arg fa_arg kw_arg = Raise (ValueError (err ''port'')))
       \<and> (\<forall>c. Connection_init (Suc depth) dflt host_string user_arg port_arg config_arg
                 gateway_arg fa_arg kw_arg = Return c \<longrightarrow>
              (\<forall>u. sh_user sh = Some u \<longrightarrow> user c = u)
            \<and> (\<forall>u. sh_user sh = None \<and> user_arg = Some u \<and> u \<noteq> [] \<longrightarrow> user c = u)
            \<and> (\<forall>n. sh_port sh = Some n \<and> n \<noteq> 0 \<longrightarrow> port c = n)
            \<and> (\<forall>n. sh_port sh = None \<and> port_arg = Some n \<and> n \<noteq> 0 \<longrightarrow> port c = n)
            \<and> ssh_config c = base_ssh_config (case config_arg of None \<Rightarrow> dflt | Some cf \<Rightarrow> cf)
                               (sh_host sh)
            \<and> (sh_user sh = None \<and> (user_arg = Some [] \<or> user_arg = None) \<longrightarrow>
                  user c = (case map_of (ssh_config c) ''user'' of
                              None \<Rightarrow> cfg_user (case config_arg of None \<Rightarrow> dflt | Some cf \<Rightarrow> cf)
                            | Some v \<Rightarrow> v))
            \<and> (sh_port sh = Some 0 \<and> port_arg = None
                  \<or> sh_port sh = None \<and> (port_arg = Some 0 \<or> port_arg = None) \<longrightarrow>
                  (case map_of (ssh_config c) ''port'' of
                     None \<Rightarrow> port c = cfg_port (case config_arg of None \<Rightarrow> dflt | Some cf \<Rightarrow> cf)
                   | Some v \<Rightarrow> py_int v = Some (port c))))
       \<and> (sh_user sh = None \<longrightarrow>
            Connection_init (Suc depth) dflt host_string (Some []) port_arg config_arg
              gateway_arg fa_arg kw_arg =
            Connection_init (Suc depth) dflt host_string None port_arg config_arg
              gateway_arg fa_arg kw_arg)
       \<and> (sh_port sh = None \<longrightarrow>
            Connection_init (Suc depth) dflt host_string user_arg (Some 0) config_arg
              gateway_arg fa_arg kw_arg =
            Connection_init (Suc depth) dflt host_string user_arg None config_arg
              gateway_arg fa_arg kw_arg)"
proof (intro conjI allI impI)
  assume "sh_user sh \<noteq> None \<and> user_arg \<noteq> None"
  then show "Connection_init (Suc depth) dflt host_string user_arg port_arg config_arg
              gateway_arg fa_arg kw_arg = Raise (ValueError (err ''user''))"
    by (simp add: Connection_init.simps ds merge_shorthand_def)
next
  assume "(sh_user sh = None \<or> user_arg = None) \<and> sh_port sh \<noteq> None \<and> port_arg \<noteq> None"
  then show "Connection_init (Suc depth) dflt host_string user_arg port_arg config_arg
              gateway_arg fa_arg kw_arg = Raise (ValueError (err ''port''))"
    by (auto simp add: Connection_init.simps ds merge_shorthand_def)
next
  fix c u
  assume r: "Connection_init (Suc depth) dflt host_string user_arg port_arg config_arg
                 gateway_arg fa_arg kw_arg = Return c" and u: "sh_user sh = Some u"
  from derive_shorthand_user_nonempty [OF ds u] have ne: "u \<noteq> []" .
  from Connection_init_Return [OF r ds] u ne show "user c = u"
    by (auto simp: merge_shorthand_def resolve_user_def split: if_splits)
next
  fix c u
  assume r: "Connection_init (Suc depth) dflt host_string user_arg port_arg config_arg
                 gateway_arg fa_arg kw_arg = Return c"
    and u: "sh_user sh = None \<and> user_arg = Some u \<and> u \<noteq> []"
  from Connection_init_Return [OF r ds] u show "user c = u"
    by (auto simp: merge_shorthand_def resolve_user_def split: if_splits)
next
  fix c n
  assume r: "Connection_init (Suc depth) dflt host_string user_arg port_arg config_arg
                 gateway_arg fa_arg kw_arg = Return c"
    and n: "sh_port sh = Some n \<and> n \<noteq> 0"
  from Connection_init_Return [OF r ds] n show "port c = n"
    by (auto simp: merge_shorthand_def resolve_port_def split: if_splits)
next
  fix c n
  assume r: "Connection_init (Suc depth) dflt host_string user_arg port_arg config_arg
                 gateway_arg fa_arg kw_arg = Return c"
    and n: "sh_port sh = None \<and> port_arg = Some n \<and> n \<noteq> 0"
  from Connection_init_Return [OF r ds] n show "port c = n"
    by (auto simp: merge_shorthand_def resolve_port_def split: if_splits)
next
  fix c
  assume r: "Connection_init (Suc depth) dflt host_string user_arg port_arg config_arg
                 gateway_arg fa_arg kw_arg = Return c"
  from Connection_init_Return [OF r ds]
  show "ssh_config c = base_ssh_config (case config_arg of None \<Rightarrow> dflt | Some cf \<Rightarrow> cf)
                               (sh_host sh)"
    by auto
next
  fix c
  assume r: "Connection_init (Suc depth) dflt host_string user_arg port_arg config_arg
                 gateway_arg fa_arg kw_arg = Return c"
    and u: "sh_user sh = None \<and> (user_arg = Some [] \<or> user_arg = None)"
  from Connection_init_Return [OF r ds] u
  show "user c = (case map_of (ssh_config c) ''user'' of
                              None \<Rightarrow> cfg_user (case config_arg of None \<Rightarrow> dflt | Some cf \<Rightarrow> cf)
                            | Some v \<Rightarrow> v)"
    by (auto simp: merge_shorthand_def resolve_user_def)
next
  fix c
  assume r: "Connection_init (Suc depth) dflt host_string user_arg port_arg config_arg
                 gateway_arg fa_arg kw_arg = Return c"
    and n: "sh_port sh = Some 0 \<and> port_arg = None
                  \<or> sh_port sh = None \<and> (port_arg = Some 0 \<or> port_arg = None)"
  from Connection_init_Return [OF r ds] n
  show "case map_of (ssh_config c) ''port'' of
                     None \<Rightarrow> port c = cfg_port (case config_arg of None \<Rightarrow> dflt | Some cf \<Rightarrow> cf)
                   | Some v \<Rightarrow> py_int v = Some (port c)"
    by (auto simp: merge_shorthand_def resolve_port_def split: option.splits)
next
  assume "sh_user sh = None"
  then show "Connection_init (Suc depth) dflt host_string (Some []) port_arg config_arg
              gateway_arg fa_arg kw_arg =
            Connection_init (Suc depth) dflt host_string None port_arg config_arg
              gateway_arg fa_arg kw_arg"
    by (simp add: Connection_init.simps ds merge_shorthand_def resolve_user_def)
next
  assume p: "sh_port sh = None"
  show "Connection_init (Suc depth) dflt host_string user_arg (Some 0) config_arg
              gateway_arg fa_arg kw_arg =
            Connection_init (Suc depth) dflt host_string user_arg None config_arg
              gateway_arg fa_arg kw_arg"
  proof (cases "merge_shorthand ''user'' (sh_user sh) user_arg")
    case (Raise e)
    then show ?thesis by (simp add: Connection_init.simps ds)
  next
    case (Return user0)
    then show ?thesis
      by (simp add: Connection_init.simps ds p merge_shorthand_def [of "''port''"] resolve_port_def)
  qed
qed

text \<open>
  C10, as the code has it. If the host string does not parse (its port is not a number),
  construction raises the \<open>ValueError\<close> of \<open>int\<close>. If it parses: when the user is
  given by shorthand and by keyword argument, construction raises the \<open>ValueError\<close> for
  the user, and when (without that) the port is given both ways, the \<open>ValueError\<close> for
  the port; no session exists then. When construction returns, a user or port given by
  one source only is the session's user or port if it is truthy (a non-empty user, a port
  other than 0). A falsy value from the one source (the port \<open>0\<close> by shorthand or by
  keyword argument, the user \<open>''\<close> by keyword argument; the shorthand gives no empty user)
  counts as absent: the session has the user or port of the host's SSH configuration, if
  it names one, else that of the configuration; a falsy keyword argument does what
  leaving it out does.
\<close>

theorem shorthand_conflict:
  "(\<forall>e. derive_shorthand host_string = Raise e \<longrightarrow>
        (\<exists>m. e = ValueError m)
      \<and> Connection_init (Suc depth) dflt host_string user_arg port_arg config_arg
            gateway_arg fa_arg kw_arg = Raise e)
   \<and> (\<forall>sh. derive_shorthand host_string = Return sh \<longrightarrow>
         (sh_user sh \<noteq> None \<and> user_arg \<noteq> None \<longrightarrow>
            Connection_init (Suc depth) dflt host_string user_arg port_arg config_arg
              gateway_arg fa_arg kw_arg = Raise (ValueError (err ''user'')))
       \<and> ((sh_user sh = None \<or> user_arg = None) \<and> sh_port sh \<noteq> None \<and> port_arg \<noteq> None \<longrightarrow>
            Connection_init (Suc depth) dflt host_string user_arg port_arg config_arg
              gateway_arg fa_arg kw_arg = Raise (ValueError (err ''port'')))
       \<and> (\<forall>c. Connection_init (Suc depth) dflt host_string user_arg port_arg config_arg
                 gateway_arg fa_arg kw_arg = Return c \<longrightarrow>
              (\<forall>u. sh_user sh = Some u \<longrightarrow> user c = u)
            \<and> (\<forall>u. sh_user sh = None \<and> user_arg = Some u \<and> u \<noteq> [] \<longrightarrow> user c = u)
            \<and> (\<forall>n. sh_port sh = Some n \<and> n \<noteq> 0 \<longrightarrow> port c = n)
            \<and> (\<forall>n. sh_port sh = None \<and> port_arg = Some n \<and> n \<noteq> 0 \<longrightarrow> port c = n)
            \<and> ssh_config c = base_ssh_config (case config_arg of None \<Rightarrow> dflt | Some cf \<Rightarrow> cf)
                               (sh_host sh)
            \<and> (sh_user sh = None \<and> (user_arg = Some [] \<or> user_arg = None) \<longrightarrow>
                  user c = (case map_of (ssh_config c) ''user'' of
                              None \<Rightarrow> cfg_user (case config_arg of None \<Rightarrow> dflt | Some cf \<Rightarrow> cf)
                            | Some v \<Rightarrow> v))
            \<and> (sh_port sh = Some 0 \<and> port_arg = None
                  \<or> sh_port sh = None \<and> (port_arg = Some 0 \<or> port_arg = None) \<longrightarrow>
                  (case map_of (ssh_config c) ''port'' of
                     None \<Rightarrow> port c = cfg_port (case config_arg of None \<Rightarrow> dflt | Some cf \<Rightarrow> cf)
                   | Some v \<Rightarrow> py_int v = Some (port c))))
       \<and> (sh_user sh = None \<longrightarrow>
            Connection_init (Suc depth) dflt host_string (Some []) port_arg config_arg
              gateway_arg fa_arg kw_arg =
            Connection_init (Suc depth) dflt host_string None port_arg config_arg
              gateway_arg fa_arg kw_arg)
       \<and> (sh_port sh = None \<longrightarrow>
            Connection_init (Suc depth) dflt host_string user_arg (Some 0) config_arg
              gateway_arg fa_arg kw_arg =
            Connection_init (Suc depth) dflt host_string user_arg None config_arg
              gateway_arg fa_arg kw_arg))"
  (is "?unparsed \<and> ?parsed")
proof (rule conjI)
  show ?unparsed
    by (auto dest: derive_shorthand_Raise simp: Connection_init.simps)
next
  show ?parsed
    by (intro allI impI) (erule Connection_init_shorthand)
qed

theorem shorthand_conflict_witness:
  "Connection_init (Suc 0) default_config ''admin@myhost:2222'' (Some ''bob'') None None
     GwNone None None = Raise (ValueError (err ''user''))
   \<and> Connection_init (Suc 0) default_config ''admin@myhost:2222'' None (Some 22) None
       GwNone None None = Raise (ValueError (err ''port''))
   \<and> Connection_init (Suc 0) default_config ''admin@myhost:2222'' None None None
       GwNone None None =
       Return (Connection (Some ''myhost'') (Some ''myhost'') ''admin'' 2222 [] GwNone False []
                 None None None)
   \<and> Connection_init (Suc 0) default_config ''host:0'' None None (Some ssh_port_config)
       GwNone None None =
       Return (Connection (Some ''host'') (Some ''host'') ''deploy'' 2200
                 [(''user'', ''deploy''), (''port'', ''2200'')] GwNone False [] None None None)"
proof -
  have ds: "derive_shorthand ''admin@myhost:2222'' =
              Return \<lparr>sh_user = Some ''admin'', sh_host = Some ''myhost'', sh_port = Some 2222\<rparr>"
    by code_simp
  have r: "Connection_init (Suc 0) default_config ''admin@myhost:2222'' None None None
             GwNone None None =
           Return (Connection (Some ''myhost'') (Some ''myhost'') ''admin'' 2222 [] GwNone False []
                     None None None)"
    by code_simp
  have z: "Connection_init (Suc 0) default_config ''host:0'' None None (Some ssh_port_config)
             GwNone None None =
           Return (Connection (Some ''host'') (Some ''host'') ''deploy'' 2200
                     [(''user'', ''deploy''), (''port'', ''2200'')] GwNone False [] None None None)"
    by code_simp
  show ?thesis
    using shorthand_conflict [where host_string = "''admin@myhost:2222''" and depth = 0
            and dflt = default_config
            and user_arg = "Some ''bob''" and port_arg = None and config_arg = None
            and gateway_arg = GwNone and fa_arg = None and kw_arg = None]
          shorthand_conflict [where host_string = "''admin@myhost:2222''" and depth = 0
            and dflt = default_config
            and user_arg = None and port_arg = "Some 22" and config_arg = None
            and gateway_arg = GwNone and fa_arg = None and kw_arg = None]
          ds r z
    by simp
qed

text \<open>
  C10, as the claim states it, fails: the port 0 comes from the shorthand alone, and the
  session's port is the configured 22.
\<close>

theorem shorthand_port_zero_not_used:
  "derive_shorthand ''host:0'' =
     Return \<lparr>sh_user = None, sh_host = Some ''host'', sh_port = Some 0\<rparr>
   \<and> Connection_init (Suc 0) default_config ''host:0'' None None None GwNone None None =
       Return (Connection (Some ''host'') (Some ''host'') ''me'' 22 [] GwNone False []
                 None None None)"
  by code_simp

text \<open>
  C8. The constructor stores a \<open>gateway\<close> argument other than \<open>None\<close> as it is, be
  it a command string, a session or \<open>False\<close>. For \<open>None\<close> it takes the session built
  from the \<open>proxyjump\<close> entry of the host's SSH configuration, else the string of its
  \<open>proxycommand\<close> entry, else the gateway of the configuration. At open time a falsy
  gateway is not resolved: \<open>open\<close> is the connect call alone, with the user name, host
  name, port and \<open>connect_kwargs\<close>.
\<close>

theorem gateway_four_way:
  assumes "Connection_init (Suc depth) dflt host_string user_arg port_arg config_arg
             gateway_arg fa_arg kw_arg = Return c"
  shows "(gateway_arg \<noteq> GwNone \<longrightarrow> gateway c = gateway_arg)
       \<and> (gateway_arg = GwNone \<longrightarrow>
            (\<forall>pj. map_of (ssh_config c) ''proxyjump'' = Some pj \<longrightarrow>
               (\<exists>g. Connection_init depth dflt pj None None None GwNone None None = Return g
                    \<and> gateway c = GwJump g))
          \<and> (\<forall>pc. map_of (ssh_config c) ''proxyjump'' = None
                  \<and> map_of (ssh_config c) ''proxycommand'' = Some pc \<longrightarrow>
               gateway c = GwCommand pc)
          \<and> (map_of (ssh_config c) ''proxyjump'' = None
               \<and> map_of (ssh_config c) ''proxycommand'' = None \<longrightarrow>
               gateway c = cfg_gateway (case config_arg of None \<Rightarrow> dflt | Some cf \<Rightarrow> cf)))
       \<and> ssh_config c = base_ssh_config (case config_arg of None \<Rightarrow> dflt | Some cf \<Rightarrow> cf)
                          (original_host c)
       \<and> (\<not> truthy (gateway c) \<longrightarrow>
            open env c w =
              connect env (dict_update [(''username'', PStr (user c)), (''hostname'', hostval (host c)),
                                        (''port'', PInt (port c))] (connect_kwargs c)) c w)"
proof -
  note g = Connection_init_gateway [OF assms]
  note tr = conjunct1 [OF g]
  note sc = conjunct1 [OF conjunct2 [OF g]]
  note gw = conjunct2 [OF conjunct2 [OF g]]
  have nc: "\<not> is_connected c"
    by (simp add: is_connected_def tr)
  have op: "\<not> truthy (gateway c) \<longrightarrow>
            open env c w =
              connect env (dict_update [(''username'', PStr (user c)), (''hostname'', hostval (host c)),
                                        (''port'', PInt (port c))] (connect_kwargs c)) c w"
    by (simp add: open.simps [of env c w] nc)
  show ?thesis
  proof (cases "gateway_arg = GwNone")
    case True
    with gw sc op show ?thesis by (auto split: option.splits)
  next
    case False
    with gw sc op show ?thesis by simp
  qed
qed

theorem gateway_four_way_witness:
  "Connection_init (Suc (Suc 0)) default_config ''inner'' None None (Some jump_config)
     GwFalse None None =
     Return (Connection (Some ''inner'') (Some ''inner'') ''me'' 22 [(''proxyjump'', ''bastion'')]
               GwFalse False [] None None None)
   \<and> events (snd (snd (open env_ok
         (Connection (Some ''inner'') (Some ''inner'') ''me'' 22 [(''proxyjump'', ''bastion'')]
            GwFalse False [] None None None) world0))) =
       [EvConnect [(''username'', PStr ''me''), (''hostname'', PStr ''inner''), (''port'', PInt 22)]]
   \<and> Connection_init (Suc (Suc 0)) default_config ''inner'' None None (Some jump_config)
       GwNone None None =
       Return (Connection (Some ''inner'') (Some ''inner'') ''me'' 22 [(''proxyjump'', ''bastion'')]
                 (GwJump (Connection (Some ''bastion'') (Some ''bastion'') ''me'' 22 [] GwNone
                            False [] None None None))
                 False [] None None None)
   \<and> Connection_init (Suc (Suc 0)) default_config ''plain'' None None (Some jump_config)
       GwNone None None =
       Return (Connection (Some ''plain'') (Some ''plain'') ''me'' 22 []
                 (GwCommand ''nc %h %p'') False [] None None None)"
proof -
  have a: "Connection_init (Suc (Suc 0)) default_config ''inner'' None None (Some jump_config)
             GwFalse None None =
           Return (Connection (Some ''inner'') (Some ''inner'') ''me'' 22 [(''proxyjump'', ''bastion'')]
                     GwFalse False [] None None None)"
    by code_simp
  have b: "Connection_init (Suc (Suc 0)) default_config ''inner'' None None (Some jump_config)
             GwNone None None =
           Return (Connection (Some ''inner'') (Some ''inner'') ''me'' 22 [(''proxyjump'', ''bastion'')]
                     (GwJump (Connection (Some ''bastion'') (Some ''bastion'') ''me'' 22 [] GwNone
                                False [] None None None))
                     False [] None None None)"
    by code_simp
  have c: "Connection_init (Suc (Suc 0)) default_config ''plain'' None None (Some jump_config)
             GwNone None None =
           Return (Connection (Some ''plain'') (Some ''plain'') ''me'' 22 []
                     (GwCommand ''nc %h %p'') False [] None None None)"
    by code_simp
  have o: "open env_ok
             (Connection (Some ''inner'') (Some ''inner'') ''me'' 22 [(''proxyjump'', ''bastion'')]
                GwFalse False [] None None None) world0 =
           connect env_ok
             [(''username'', PStr ''me''), (''hostname'', PStr ''inner''), (''port'', PInt 22)]
             (Connection (Some ''inner'') (Some ''inner'') ''me'' 22 [(''proxyjump'', ''bastion'')]
                GwFalse False [] None None None) world0"
    using gateway_four_way [OF a, of env_ok world0]
    by (simp add: dict_update_def hostval_def jump_config_def)
  show ?thesis
    by (simp add: o a b c)
       (simp add: connect_def call_def emit_def new_id_def env_ok_def world0_def)
qed

end
